theory Spec2Isabelle
  imports Complex_Main
begin

section \<open>Errors and the tensor view\<close>

text \<open>
  The exceptions the transform core of \<^verbatim>\<open>torchsample/utils.py\<close> can raise, as values.
  \<open>IndexError\<close>: an axis, a column or a flat index out of range. \<open>ValueError\<close>: numpy
  cannot infer a \<open>-1\<close> dimension. \<open>RuntimeError\<close>: a shape mismatch in torch
  (\<open>mm\<close>, \<open>mv\<close>, \<open>expand_as\<close>, \<open>stack\<close>, \<open>view\<close>). \<open>UnboundLocalError\<close>: a local
  variable read before any assignment.
\<close>

datatype error = IndexError | ValueError | RuntimeError | UnboundLocalError

definition bind_err :: "error + 'a \<Rightarrow> ('a \<Rightarrow> error + 'b) \<Rightarrow> error + 'b" where
  "bind_err m f = (case m of Inl e \<Rightarrow> Inl e | Inr v \<Rightarrow> f v)"

section \<open>Index grid generator\<close>

text \<open>
  \<^verbatim>\<open>np.indices(args)\<close> is the array of shape \<open>(D, n1, ..., nD)\<close> whose entry
  \<open>[k][i1]...[iD]\<close> is \<open>ik\<close>. Its C-order buffer lists, for each axis \<open>k\<close>, the
  \<open>k\<close>-th component of the multi-index of every flat position \<open>p\<close>;
  \<open>unravel\<close> is that multi-index.
\<close>

fun unravel :: "nat list \<Rightarrow> nat \<Rightarrow> nat list" where
  "unravel [] p = []"
| "unravel (n # ns) p = (p div prod_list ns) # unravel ns (p mod prod_list ns)"

definition np_indices :: "nat list \<Rightarrow> nat list" where
  "np_indices dims =
     concat (map (\<lambda>k. map (\<lambda>p. unravel dims p ! k) [0..<prod_list dims]) [0..<length dims])"

text \<open>\<open>chunks r n buf\<close>: the first \<open>r\<close> consecutive runs of length \<open>n\<close> of a buffer.\<close>

fun chunks :: "nat \<Rightarrow> nat \<Rightarrow> 'a list \<Rightarrow> 'a list list" where
  "chunks 0 n buf = []"
| "chunks (Suc r) n buf = take n buf # chunks r n (drop n buf)"

text \<open>
  \<^verbatim>\<open>.reshape((r, -1))\<close> of a C-order buffer: \<open>r\<close> rows; numpy raises when the free
  dimension cannot be inferred (\<open>r = 0\<close>, or a length that \<open>r\<close> does not divide).
\<close>

definition np_reshape_rows :: "nat \<Rightarrow> 'a list \<Rightarrow> error + 'a list list" where
  "np_reshape_rows r buf =
     (if r = 0 \<or> length buf mod r \<noteq> 0 then Inl ValueError
      else Inr (chunks r (length buf div r) buf))"

text \<open>\<^verbatim>\<open>.T\<close> of a two-dimensional array given by its rows.\<close>

definition np_T :: "'a list list \<Rightarrow> 'a list list" where
  "np_T rows =
     (case rows of [] \<Rightarrow> []
      | r # _ \<Rightarrow> map (\<lambda>j. map (\<lambda>row. row ! j) rows) [0..<length r])"

text \<open>
  \<^verbatim>\<open>def th_iterproduct(*args):
    return torch.from_numpy(np.indices(args).reshape((len(args),-1)).T)\<close>
  The arguments are tensor sizes, hence naturals.
\<close>

definition th_iterproduct :: "nat list \<Rightarrow> error + nat list list" where
  "th_iterproduct args =
     bind_err (np_reshape_rows (length args) (np_indices args)) (\<lambda>rows. Inr (np_T rows))"

text \<open>
  The grid as the specification words it: the Cartesian product of the per-axis ranges,
  first axis slowest, last axis fastest.
\<close>

definition build_index_grid_spec :: "nat list \<Rightarrow> nat list list" where
  "build_index_grid_spec dims = product_lists (map (\<lambda>n. [0..<n]) dims)"

section \<open>Tensor view\<close>

text \<open>
  A tensor is a view of a buffer: its shape, its strides and the buffer (storage offset 0).
  Values are modelled as real numbers: arithmetic is exact, there is no rounding error and
  no NaN.
\<close>

record tensor =
  shape :: "nat list"
  stride :: "nat list"
  storage :: "real list"

text \<open>\<^verbatim>\<open>x.size(i)\<close>: raises when the tensor has no axis \<open>i\<close>.\<close>

definition size_at :: "tensor \<Rightarrow> nat \<Rightarrow> error + nat" where
  "size_at x i = (if i < length (shape x) then Inr (shape x ! i) else Inl IndexError)"

definition nth_err :: "'a list \<Rightarrow> nat \<Rightarrow> error + 'a" where
  "nth_err xs i = (if i < length xs then Inr (xs ! i) else Inl IndexError)"

text \<open>The buffer offset of a multi-index: \<open>sum (idx[i] * strides[i])\<close>.\<close>

definition flat_offset :: "nat list \<Rightarrow> nat list \<Rightarrow> nat" where
  "flat_offset strides idx = sum_list (map2 (*) idx strides)"

text \<open>The strides of a row-major (C-order) tensor of a given shape.\<close>

fun c_strides :: "nat list \<Rightarrow> nat list" where
  "c_strides [] = []"
| "c_strides (n # ns) = prod_list ns # c_strides ns"


text \<open>
  \<^verbatim>\<open>def th_flatten(x): return x.contiguous().view(-1)\<close>
  Entry \<open>p\<close> of the contiguous copy is the element at the multi-index of \<open>p\<close>.
\<close>

definition th_flatten :: "tensor \<Rightarrow> real list" where
  "th_flatten x =
     map (\<lambda>p. storage x ! flat_offset (stride x) (unravel (shape x) p))
       [0..<prod_list (shape x)]"

text \<open>\<^verbatim>\<open>.view(r, -1)\<close> of a flat tensor; torch raises when \<open>-1\<close> cannot be inferred.\<close>

definition th_view_rows :: "nat \<Rightarrow> 'a list \<Rightarrow> error + 'a list list" where
  "th_view_rows r buf =
     (if r = 0 \<or> length buf mod r \<noteq> 0 then Inl RuntimeError
      else Inr (chunks r (length buf div r) buf))"

text \<open>\<^verbatim>\<open>def th_c_flatten(x): return x.contiguous().view(x.size(0), -1)\<close>\<close>

definition th_c_flatten :: "tensor \<Rightarrow> error + real list list" where
  "th_c_flatten x = bind_err (size_at x 0) (\<lambda>c. th_view_rows c (th_flatten x))"

text \<open>
  \<^verbatim>\<open>vals.view_as(input)\<close> of a flat tensor: a fresh contiguous tensor of the shape of
  \<open>input\<close>; raises when the element counts differ.
\<close>

definition view_as :: "real list \<Rightarrow> tensor \<Rightarrow> error + tensor" where
  "view_as buf x =
     (if length buf = prod_list (shape x)
      then Inr \<lparr>shape = shape x, stride = c_strides (shape x), storage = buf\<rparr>
      else Inl RuntimeError)"

section \<open>Array operations of the host library\<close>

text \<open>
  \<^verbatim>\<open>torch.clamp(a, lo, hi)\<close> is \<open>min (max a lo) hi\<close>; when \<open>lo > hi\<close> every element
  becomes \<open>hi\<close>, as the library documents.
\<close>

definition th_clamp :: "real \<Rightarrow> real \<Rightarrow> real \<Rightarrow> real" where
  "th_clamp a lo hi = min (max a lo) hi"

text \<open>\<^verbatim>\<open>.round()\<close>: to the nearest integer, a tie to the even neighbour.\<close>

definition th_round :: "real \<Rightarrow> real" where
  "th_round a =
     (let f = \<lfloor>a\<rfloor>; d = a - of_int f in
      if d < 1 / 2 then of_int f
      else if 1 / 2 < d then of_int (f + 1)
      else if even f then of_int f else of_int (f + 1))"

text \<open>\<^verbatim>\<open>.floor()\<close> on a float tensor, and \<^verbatim>\<open>.long()\<close>, which truncates towards zero.\<close>

definition th_floor :: "real \<Rightarrow> real" where
  "th_floor a = of_int \<lfloor>a\<rfloor>"

definition th_long :: "real \<Rightarrow> int" where
  "th_long a = (if 0 \<le> a then \<lfloor>a\<rfloor> else \<lceil>a\<rceil>)"

text \<open>
  A two-dimensional float tensor (a coordinate grid, a matrix) is the list of its rows.
  \<^verbatim>\<open>m[:,k]\<close> reads column \<open>k\<close>; \<^verbatim>\<open>m[:,k] = v\<close> overwrites it.
\<close>

definition col :: "nat \<Rightarrow> real list list \<Rightarrow> error + real list" where
  "col k m = (if \<forall>r \<in> set m. k < length r then Inr (map (\<lambda>r. r ! k) m) else Inl IndexError)"

definition set_col :: "nat \<Rightarrow> real list \<Rightarrow> real list list \<Rightarrow> real list list" where
  "set_col k v m = map2 (\<lambda>r a. r[k := a]) m v"

text \<open>\<^verbatim>\<open>m[:,k] = f(m[:,k])\<close> for an elementwise \<open>f\<close>.\<close>

definition upd_col :: "nat \<Rightarrow> (real \<Rightarrow> real) \<Rightarrow> real list list \<Rightarrow> error + real list list" where
  "upd_col k f m = bind_err (col k m) (\<lambda>v. Inr (set_col k (map f v) m))"

definition dot :: "real list \<Rightarrow> real list \<Rightarrow> real" where
  "dot u v = sum_list (map2 (*) u v)"

text \<open>\<^verbatim>\<open>m.t()\<close>, \<^verbatim>\<open>m.mv(v)\<close> and \<^verbatim>\<open>a.mm(b)\<close>.\<close>

definition th_t :: "real list list \<Rightarrow> real list list" where
  "th_t m = np_T m"

definition mv :: "real list list \<Rightarrow> real list \<Rightarrow> error + real list" where
  "mv m v =
     (if \<forall>r \<in> set m. length r = length v then Inr (map (\<lambda>r. dot r v) m)
      else Inl RuntimeError)"

definition mm :: "real list list \<Rightarrow> real list list \<Rightarrow> error + real list list" where
  "mm a b =
     (if \<forall>r \<in> set a. length r = length b
      then Inr (map (\<lambda>r. map (\<lambda>c. dot r c) (th_t b)) a)
      else Inl RuntimeError)"

text \<open>
  \<^verbatim>\<open>v.expand_as(m)\<close> repeats the vector \<open>v\<close> along the rows of \<open>m\<close>; a vector of one
  element is also repeated along the columns.
\<close>

definition expand_as :: "real list \<Rightarrow> real list list \<Rightarrow> error + real list list" where
  "expand_as v m =
     (if \<forall>r \<in> set m. length r = length v then Inr (map (\<lambda>r. v) m)
      else if length v = 1 then Inr (map (\<lambda>r. replicate (length r) (hd v)) m)
      else Inl RuntimeError)"

text \<open>Elementwise sum of two rows; a row of one element is broadcast.\<close>

definition add_row :: "real list \<Rightarrow> real list \<Rightarrow> error + real list" where
  "add_row u v =
     (if length u = length v then Inr (map2 (+) u v)
      else if length u = 1 then Inr (map (\<lambda>b. hd u + b) v)
      else if length v = 1 then Inr (map (\<lambda>a. a + hd v) u)
      else Inl RuntimeError)"

fun map_err :: "('a \<Rightarrow> error + 'b) \<Rightarrow> 'a list \<Rightarrow> error + 'b list" where
  "map_err f [] = Inr []"
| "map_err f (x # xs) =
     bind_err (f x) (\<lambda>y. bind_err (map_err f xs) (\<lambda>ys. Inr (y # ys)))"

definition madd :: "real list list \<Rightarrow> real list list \<Rightarrow> error + real list list" where
  "madd a b =
     (if length a = length b then map_err (\<lambda>(u, v). add_row u v) (zip a b)
      else Inl RuntimeError)"

text \<open>
  \<^verbatim>\<open>flat[idx]\<close> with a tensor of integer indices: an index \<open>i\<close> with \<open>-n \<le> i < 0\<close> counts
  from the end of the buffer; outside \<open>[-n, n)\<close> the read raises.
\<close>

definition index_at :: "'a list \<Rightarrow> int \<Rightarrow> error + 'a" where
  "index_at xs i =
     (let n = int (length xs) in
      if 0 \<le> i \<and> i < n then Inr (xs ! nat i)
      else if - n \<le> i \<and> i < 0 then Inr (xs ! nat (n + i))
      else Inl IndexError)"

definition gather :: "'a list \<Rightarrow> int list \<Rightarrow> error + 'a list" where
  "gather xs idx = map_err (index_at xs) idx"

text \<open>\<^verbatim>\<open>torch.stack(rows, 0)\<close> of flat tensors: raises on an empty list or unequal lengths.\<close>

definition th_stack :: "real list list \<Rightarrow> error + real list list" where
  "th_stack rows =
     (if rows = [] \<or> (\<exists>r \<in> set rows. length r \<noteq> length (hd rows)) then Inl RuntimeError
      else Inr rows)"

section \<open>Resamplers, two spatial axes\<close>

text \<open>
  The two arguments of a resampler as the callee can mutate them. A resampler returns its
  result (or the exception) together with the arguments as they are when it returns.
\<close>

record args =
  input :: tensor
  coords :: "real list list"

text \<open>
  \<^verbatim>\<open>coords[:,k] = torch.clamp(coords[:,k], 0, input.size(k+1)-1).round()\<close>
  The right-hand side is a fresh tensor; the assignment writes it into \<open>coords\<close>.
\<close>

definition clamp_round_col :: "nat \<Rightarrow> args \<Rightarrow> error + real list list" where
  "clamp_round_col k s =
     bind_err (col k (coords s)) (\<lambda>c.
     bind_err (size_at (input s) (k + 1)) (\<lambda>n.
     Inr (set_col k (map (\<lambda>a. th_round (th_clamp a 0 (of_int (int n - 1)))) c) (coords s))))"

text \<open>
  Lines 120 to 128 of \<^verbatim>\<open>th_nearest_interp_2d\<close>:
  \<^verbatim>\<open>stride = torch.FloatTensor(input.stride())[1:]
  idx = coords.mv(stride).long()
  input_flat = th_c_flatten(input)
  mapped_vals = torch.stack([input_flat[i][idx] for i in range(input.size(0))], 0)
  return mapped_vals.view_as(input)\<close>
\<close>

definition nearest_gather_2d :: "tensor \<Rightarrow> real list list \<Rightarrow> error + tensor" where
  "nearest_gather_2d inp cs =
     bind_err (mv cs (map real (tl (stride inp)))) (\<lambda>v.
     let idx = map th_long v in
     bind_err (th_c_flatten inp) (\<lambda>input_flat.
     bind_err (size_at inp 0) (\<lambda>c.
     bind_err (map_err (\<lambda>i. bind_err (nth_err input_flat i) (\<lambda>row. gather row idx)) [0..<c])
       (\<lambda>rows.
     bind_err (th_stack rows) (\<lambda>mapped_vals.
     view_as (concat mapped_vals) inp)))))"

definition th_nearest_interp_2d :: "args \<Rightarrow> (error + tensor) \<times> args" where
  "th_nearest_interp_2d s =
     (case clamp_round_col 0 s of
        Inl e \<Rightarrow> (Inl e, s)
      | Inr c1 \<Rightarrow>
          let s1 = s\<lparr>coords := c1\<rparr> in
          (case clamp_round_col 1 s1 of
             Inl e \<Rightarrow> (Inl e, s1)
           | Inr c2 \<Rightarrow>
               let s2 = s1\<lparr>coords := c2\<rparr> in
               (nearest_gather_2d (input s2) (coords s2), s2)))"

text \<open>
  \<^verbatim>\<open>x = torch.clamp(coords[:,k], 0, input.size(k+1)-2)\<close>: a fresh tensor; \<open>coords\<close> is only
  read.
\<close>

definition clamp_col :: "nat \<Rightarrow> tensor \<Rightarrow> real list list \<Rightarrow> error + real list" where
  "clamp_col k inp cs =
     bind_err (col k cs) (\<lambda>c.
     bind_err (size_at inp (k + 1)) (\<lambda>n.
     Inr (map (\<lambda>a. th_clamp a 0 (of_int (int n - 2))) c)))"

text \<open>\<^verbatim>\<open>x0.mul(stride[k]).long()\<close> with \<^verbatim>\<open>stride = torch.LongTensor(input.stride())[1:]\<close>.\<close>

definition axis_ix :: "tensor \<Rightarrow> nat \<Rightarrow> real list \<Rightarrow> error + int list" where
  "axis_ix inp k v =
     bind_err (nth_err (tl (stride inp)) k) (\<lambda>s. Inr (map (\<lambda>a. th_long (a * real s)) v))"

text \<open>
  The weighted sum of the four corner values at one output point:
  \<^verbatim>\<open>xm1 = 1 - xd
  ym1 = 1 - yd
  x_mapped = (vals_00.mul(xm1).mul(ym1) + vals_10.mul(xd).mul(ym1) +
              vals_01.mul(xm1).mul(yd) + vals_11.mul(xd).mul(yd))\<close>
\<close>

definition x_mapped_2d :: "real \<Rightarrow> real \<Rightarrow> real \<Rightarrow> real \<Rightarrow> real \<Rightarrow> real \<Rightarrow> real" where
  "x_mapped_2d v00 v10 v01 v11 xd yd =
     (let xm1 = 1 - xd; ym1 = 1 - yd in
      v00 * xm1 * ym1 + v10 * xd * ym1 + v01 * xm1 * yd + v11 * xd * yd)"

definition bilinear_2d :: "tensor \<Rightarrow> real list list \<Rightarrow> error + tensor" where
  "bilinear_2d inp cs =
     bind_err (clamp_col 0 inp cs) (\<lambda>x.
     let x0 = map th_floor x; x1 = map (\<lambda>a. a + 1) x0 in
     bind_err (clamp_col 1 inp cs) (\<lambda>y.
     let y0 = map th_floor y; y1 = map (\<lambda>a. a + 1) y0;
         xd = map2 (-) x x0; yd = map2 (-) y y0 in
     bind_err (axis_ix inp 0 x0) (\<lambda>x0_ix.
     bind_err (axis_ix inp 0 x1) (\<lambda>x1_ix.
     bind_err (axis_ix inp 1 y0) (\<lambda>y0_ix.
     bind_err (axis_ix inp 1 y1) (\<lambda>y1_ix.
     let input_flat = th_flatten inp in
     bind_err (gather input_flat (map2 (+) x0_ix y0_ix)) (\<lambda>vals_00.
     bind_err (gather input_flat (map2 (+) x1_ix y0_ix)) (\<lambda>vals_10.
     bind_err (gather input_flat (map2 (+) x0_ix y1_ix)) (\<lambda>vals_01.
     bind_err (gather input_flat (map2 (+) x1_ix y1_ix)) (\<lambda>vals_11.
     view_as
       (map (\<lambda>p. x_mapped_2d (vals_00 ! p) (vals_10 ! p) (vals_01 ! p) (vals_11 ! p)
                   (xd ! p) (yd ! p)) [0..<length cs])
       inp))))))))))"

definition th_bilinear_interp_2d :: "args \<Rightarrow> (error + tensor) \<times> args" where
  "th_bilinear_interp_2d s = (bilinear_2d (input s) (coords s), s)"

section \<open>Affine transform, two spatial axes\<close>

text \<open>
  Lines 84 to 101 of \<^verbatim>\<open>th_affine_2d\<close>: the slices \<^verbatim>\<open>A = matrix[:2,:2]\<close> and
  \<^verbatim>\<open>b = matrix[:2,2]\<close>, the grid, and the mapped coordinates
  \<^verbatim>\<open>new_coords = coords.mm(A.t().contiguous()) + b.expand_as(coords)\<close>, shifted by
  \<^verbatim>\<open>x.size(i) / 2. + 0.5\<close> before and after when \<open>center\<close> is set.
\<close>

definition th_affine_2d_coords :: "tensor \<Rightarrow> real list list \<Rightarrow> bool \<Rightarrow> error + real list list" where
  "th_affine_2d_coords x matrix center =
     (let A = map (take 2) (take 2 matrix) in
      bind_err (col 2 (take 2 matrix)) (\<lambda>b.
      bind_err (size_at x 1) (\<lambda>h.
      bind_err (size_at x 2) (\<lambda>w.
      bind_err (th_iterproduct [h, w]) (\<lambda>g.
      bind_err
        (if center
         then bind_err (upd_col 0 (\<lambda>a. a - (real h / 2 + 0.5)) (map (map real) g))
                (upd_col 1 (\<lambda>a. a - (real w / 2 + 0.5)))
         else Inr (map (map real) g)) (\<lambda>coords.
      bind_err (mm coords (th_t A)) (\<lambda>ac.
      bind_err (expand_as b coords) (\<lambda>be.
      bind_err (madd ac be) (\<lambda>new_coords.
      if center
      then bind_err (upd_col 0 (\<lambda>a. a + (real h / 2 + 0.5)) new_coords)
             (upd_col 1 (\<lambda>a. a + (real w / 2 + 0.5)))
      else Inr new_coords)))))))))"

text \<open>
  The dispatch on the mode string. With any other string neither branch assigns
  \<^verbatim>\<open>x_transformed\<close>, and \<^verbatim>\<open>return x_transformed\<close> raises.
\<close>

definition th_affine_2d :: "tensor \<Rightarrow> real list list \<Rightarrow> string \<Rightarrow> bool \<Rightarrow> error + tensor" where
  "th_affine_2d x matrix mode center =
     bind_err (th_affine_2d_coords x matrix center) (\<lambda>new_coords.
       if mode = ''nearest''
       then fst (th_nearest_interp_2d \<lparr>input = x, coords = new_coords\<rparr>)
       else if mode = ''bilinear''
       then fst (th_bilinear_interp_2d \<lparr>input = x, coords = new_coords\<rparr>)
       else Inl UnboundLocalError)"

section \<open>Resamplers and affine transform, three spatial axes\<close>

text \<open>
  Lines 218 to 225 of \<^verbatim>\<open>th_nearest_interp_3d\<close>:
  \<^verbatim>\<open>stride = torch.LongTensor(input.stride())[1:].float()
  idx = coords.mv(stride)
  input_flat = th_flatten(input)
  mapped_vals = input_flat[idx.long()]
  return mapped_vals.view_as(input)\<close>
\<close>

definition nearest_gather_3d :: "tensor \<Rightarrow> real list list \<Rightarrow> error + tensor" where
  "nearest_gather_3d inp cs =
     bind_err (mv cs (map real (tl (stride inp)))) (\<lambda>idx.
     bind_err (gather (th_flatten inp) (map th_long idx)) (\<lambda>mapped_vals.
     view_as mapped_vals inp))"

definition th_nearest_interp_3d :: "args \<Rightarrow> (error + tensor) \<times> args" where
  "th_nearest_interp_3d s =
     (case clamp_round_col 0 s of
        Inl e \<Rightarrow> (Inl e, s)
      | Inr c1 \<Rightarrow>
          let s1 = s\<lparr>coords := c1\<rparr> in
          (case clamp_round_col 1 s1 of
             Inl e \<Rightarrow> (Inl e, s1)
           | Inr c2 \<Rightarrow>
               let s2 = s1\<lparr>coords := c2\<rparr> in
               (case clamp_round_col 2 s2 of
                  Inl e \<Rightarrow> (Inl e, s2)
                | Inr c3 \<Rightarrow>
                    let s3 = s2\<lparr>coords := c3\<rparr> in
                    (nearest_gather_3d (input s3) (coords s3), s3))))"

text \<open>The weighted sum of the eight corner values at one output point (lines 269 to 280).\<close>

definition x_mapped_3d ::
  "real \<Rightarrow> real \<Rightarrow> real \<Rightarrow> real \<Rightarrow> real \<Rightarrow> real \<Rightarrow> real \<Rightarrow> real \<Rightarrow> real \<Rightarrow> real \<Rightarrow> real \<Rightarrow> real" where
  "x_mapped_3d v000 v100 v010 v001 v101 v011 v110 v111 xd yd zd =
     (let xm1 = 1 - xd; ym1 = 1 - yd; zm1 = 1 - zd in
      v000 * xm1 * ym1 * zm1 +
      v100 * xd * ym1 * zm1 +
      v010 * xm1 * yd * zm1 +
      v001 * xm1 * ym1 * zd +
      v101 * xd * ym1 * zd +
      v011 * xm1 * yd * zd +
      v110 * xd * yd * zm1 +
      v111 * xd * yd * zd)"

text \<open>\<^verbatim>\<open>x_ix + y_ix + z_ix\<close> on index tensors.\<close>

definition add3 :: "int list \<Rightarrow> int list \<Rightarrow> int list \<Rightarrow> int list" where
  "add3 xi yi zi = map2 (+) (map2 (+) xi yi) zi"

definition trilinear_3d :: "tensor \<Rightarrow> real list list \<Rightarrow> error + tensor" where
  "trilinear_3d inp cs =
     bind_err (clamp_col 0 inp cs) (\<lambda>x.
     let x0 = map th_floor x; x1 = map (\<lambda>a. a + 1) x0 in
     bind_err (clamp_col 1 inp cs) (\<lambda>y.
     let y0 = map th_floor y; y1 = map (\<lambda>a. a + 1) y0 in
     bind_err (clamp_col 2 inp cs) (\<lambda>z.
     let z0 = map th_floor z; z1 = map (\<lambda>a. a + 1) z0;
         xd = map2 (-) x x0; yd = map2 (-) y y0; zd = map2 (-) z z0 in
     bind_err (axis_ix inp 0 x0) (\<lambda>x0_ix.
     bind_err (axis_ix inp 0 x1) (\<lambda>x1_ix.
     bind_err (axis_ix inp 1 y0) (\<lambda>y0_ix.
     bind_err (axis_ix inp 1 y1) (\<lambda>y1_ix.
     bind_err (axis_ix inp 2 z0) (\<lambda>z0_ix.
     bind_err (axis_ix inp 2 z1) (\<lambda>z1_ix.
     let input_flat = th_flatten inp in
     bind_err (gather input_flat (add3 x0_ix y0_ix z0_ix)) (\<lambda>vals_000.
     bind_err (gather input_flat (add3 x1_ix y0_ix z0_ix)) (\<lambda>vals_100.
     bind_err (gather input_flat (add3 x0_ix y1_ix z0_ix)) (\<lambda>vals_010.
     bind_err (gather input_flat (add3 x0_ix y0_ix z1_ix)) (\<lambda>vals_001.
     bind_err (gather input_flat (add3 x1_ix y0_ix z1_ix)) (\<lambda>vals_101.
     bind_err (gather input_flat (add3 x0_ix y1_ix z1_ix)) (\<lambda>vals_011.
     bind_err (gather input_flat (add3 x1_ix y1_ix z0_ix)) (\<lambda>vals_110.
     bind_err (gather input_flat (add3 x1_ix y1_ix z1_ix)) (\<lambda>vals_111.
     view_as
       (map (\<lambda>p. x_mapped_3d (vals_000 ! p) (vals_100 ! p) (vals_010 ! p) (vals_001 ! p)
                   (vals_101 ! p) (vals_011 ! p) (vals_110 ! p) (vals_111 ! p)
                   (xd ! p) (yd ! p) (zd ! p)) [0..<length cs])
       inp)))))))))))))))))"

definition th_trilinear_interp_3d :: "args \<Rightarrow> (error + tensor) \<times> args" where
  "th_trilinear_interp_3d s = (trilinear_3d (input s) (coords s), s)"

text \<open>Lines 176 to 198 of \<^verbatim>\<open>th_affine_3d\<close>, with \<^verbatim>\<open>A = matrix[:3,:3]\<close> and \<^verbatim>\<open>b = matrix[:3,3]\<close>.\<close>

definition th_affine_3d_coords :: "tensor \<Rightarrow> real list list \<Rightarrow> bool \<Rightarrow> error + real list list" where
  "th_affine_3d_coords x matrix center =
     (let A = map (take 3) (take 3 matrix) in
      bind_err (col 3 (take 3 matrix)) (\<lambda>b.
      bind_err (size_at x 1) (\<lambda>d1.
      bind_err (size_at x 2) (\<lambda>d2.
      bind_err (size_at x 3) (\<lambda>d3.
      bind_err (th_iterproduct [d1, d2, d3]) (\<lambda>g.
      bind_err
        (if center
         then bind_err (bind_err (upd_col 0 (\<lambda>a. a - (real d1 / 2 + 0.5)) (map (map real) g))
                (upd_col 1 (\<lambda>a. a - (real d2 / 2 + 0.5))))
                (upd_col 2 (\<lambda>a. a - (real d3 / 2 + 0.5)))
         else Inr (map (map real) g)) (\<lambda>coords.
      bind_err (mm coords (th_t A)) (\<lambda>ac.
      bind_err (expand_as b coords) (\<lambda>be.
      bind_err (madd ac be) (\<lambda>new_coords.
      if center
      then bind_err (bind_err (upd_col 0 (\<lambda>a. a + (real d1 / 2 + 0.5)) new_coords)
             (upd_col 1 (\<lambda>a. a + (real d2 / 2 + 0.5))))
             (upd_col 2 (\<lambda>a. a + (real d3 / 2 + 0.5)))
      else Inr new_coords))))))))))"

definition th_affine_3d :: "tensor \<Rightarrow> real list list \<Rightarrow> string \<Rightarrow> bool \<Rightarrow> error + tensor" where
  "th_affine_3d x matrix mode center =
     bind_err (th_affine_3d_coords x matrix center) (\<lambda>new_coords.
       if mode = ''nearest''
       then fst (th_nearest_interp_3d \<lparr>input = x, coords = new_coords\<rparr>)
       else if mode = ''trilinear''
       then fst (th_trilinear_interp_3d \<lparr>input = x, coords = new_coords\<rparr>)
       else Inl UnboundLocalError)"

section \<open>Concrete inputs\<close>

text \<open>A contiguous single-channel tensor of size \<open>(1, 2, 2)\<close>.\<close>

definition ex_gray_2x2 :: tensor where
  "ex_gray_2x2 = \<lparr>shape = [1, 2, 2], stride = [4, 2, 1], storage = [10, 20, 30, 40]\<rparr>"

text \<open>The identity transform as a matrix of size \<open>(2, 3)\<close>.\<close>

definition ex_matrix_2d :: "real list list" where
  "ex_matrix_2d = [[1, 0, 0], [0, 1, 0]]"

text \<open>A tensor of size \<open>(2, 2)\<close>: it has no axis 2.\<close>

definition ex_no_channel_axis :: tensor where
  "ex_no_channel_axis = \<lparr>shape = [2, 2], stride = [2, 1], storage = [1, 2, 3, 4]\<rparr>"


text \<open>A contiguous tensor of size \<open>(2, 2, 2)\<close>: channel 0 all zeros, channel 1 all ones.\<close>

definition ex_two_channel :: tensor where
  "ex_two_channel = \<lparr>shape = [2, 2, 2], stride = [4, 2, 1], storage = [0, 0, 0, 0, 1, 1, 1, 1]\<rparr>"



definition ex_rot90 :: "real list list" where
  "ex_rot90 = [[0, - 1, 0], [1, 0, 0]]"





section \<open>Properties of the index grid\<close>

lemma bind_err_Inr [simp]: "bind_err (Inr v) f = f v"
  by (simp add: bind_err_def)

lemma bind_err_Inl [simp]: "bind_err (Inl e) f = Inl e"
  by (simp add: bind_err_def)

lemma length_unravel [simp]: "length (unravel dims p) = length dims"
  by (induction dims arbitrary: p) auto

lemma upt_blocks:
  "concat (map (\<lambda>i. map (\<lambda>q. i * P + q) [0..<P]) [0..<n]) = [0..<n * P]"
proof (induction n)
  case 0
  show ?case by simp
next
  case (Suc n)
  have "map (\<lambda>q. n * P + q) [0..<P] = [n * P..<n * P + P]"
    by (simp add: map_add_upt add.commute)
  moreover have "[0..<n * P + P] = [0..<n * P] @ [n * P..<n * P + P]"
    by (rule upt_add_eq_append) simp
  ultimately show ?case using Suc by (simp add: add.commute)
qed

lemma unravel_grid:
  "map (unravel dims) [0..<prod_list dims] = build_index_grid_spec dims"
proof (induction dims)
  case Nil
  show ?case by (simp add: build_index_grid_spec_def)
next
  case (Cons n ns)
  let ?P = "prod_list ns"
  have blk: "map (\<lambda>q. unravel (n # ns) (i * ?P + q)) [0..<?P]
        = map (Cons i) (build_index_grid_spec ns)" for i
  proof -
    have "map (\<lambda>q. unravel (n # ns) (i * ?P + q)) [0..<?P]
          = map (\<lambda>q. i # unravel ns q) [0..<?P]"
      by (rule map_cong) simp_all
    also have "\<dots> = map (Cons i) (map (unravel ns) [0..<?P])"
      by simp
    finally show ?thesis by (simp add: Cons.IH)
  qed
  have "map (unravel (n # ns)) [0..<prod_list (n # ns)]
        = map (unravel (n # ns)) (concat (map (\<lambda>i. map (\<lambda>q. i * ?P + q) [0..<?P]) [0..<n]))"
    by (simp add: upt_blocks)
  also have "\<dots> = concat (map (\<lambda>i. map (Cons i) (build_index_grid_spec ns)) [0..<n])"
    by (simp only: map_concat map_map o_def blk)
  also have "\<dots> = build_index_grid_spec (n # ns)"
    by (simp only: build_index_grid_spec_def list.map product_lists.simps)
  finally show ?case .
qed

lemma chunks_concat:
  "\<forall>r \<in> set rows. length r = n \<Longrightarrow> chunks (length rows) n (concat rows) = rows"
  by (induction rows) auto

lemma length_concat_uniform:
  "\<forall>r \<in> set rows. length r = n \<Longrightarrow> length (concat rows) = length rows * n"
  by (induction rows) auto

lemma np_T_nonempty:
  "rows \<noteq> [] \<Longrightarrow> np_T rows = map (\<lambda>j. map (\<lambda>row. row ! j) rows) [0..<length (hd rows)]"
  by (cases rows) (simp_all add: np_T_def)

lemma np_T_table:
  assumes "0 < D"
  shows "np_T (map (\<lambda>k. map (\<lambda>p. f p k) [0..<P]) [0..<D])
         = map (\<lambda>p. map (f p) [0..<D]) [0..<P]"
proof -
  let ?rows = "map (\<lambda>k. map (\<lambda>p. f p k) [0..<P]) [0..<D]"
  have ne: "?rows \<noteq> []" using assms by simp
  have "length (hd ?rows) = P"
    using assms by (simp add: hd_map)
  then have "np_T ?rows = map (\<lambda>j. map (\<lambda>row. row ! j) ?rows) [0..<P]"
    using np_T_nonempty [OF ne] by simp
  also have "\<dots> = map (\<lambda>p. map (f p) [0..<D]) [0..<P]"
    by (rule map_cong) simp_all
  finally show ?thesis .
qed

lemma th_iterproduct_grid:
  assumes "dims \<noteq> []"
  shows "th_iterproduct dims = Inr (build_index_grid_spec dims)"
proof -
  let ?D = "length dims" and ?P = "prod_list dims"
  let ?rows = "map (\<lambda>k. map (\<lambda>p. unravel dims p ! k) [0..<?P]) [0..<?D]"
  have D: "0 < ?D" using assms by simp
  have uni: "\<forall>r \<in> set ?rows. length r = ?P" by auto
  have len: "length (np_indices dims) = ?D * ?P"
    using length_concat_uniform [OF uni] by (simp add: np_indices_def)
  have "np_reshape_rows ?D (np_indices dims) = Inr (chunks ?D ?P (concat ?rows))"
    using D by (simp add: np_reshape_rows_def len) (simp add: np_indices_def)
  also have "chunks ?D ?P (concat ?rows) = ?rows"
    using chunks_concat [OF uni] by simp
  finally have rs: "np_reshape_rows ?D (np_indices dims) = Inr ?rows" .
  have "np_T ?rows = map (\<lambda>p. map (\<lambda>k. unravel dims p ! k) [0..<?D]) [0..<?P]"
    by (rule np_T_table [OF D])
  also have "\<dots> = map (unravel dims) [0..<?P]"
  proof (rule map_cong [OF refl])
    fix p
    show "map (\<lambda>k. unravel dims p ! k) [0..<?D] = unravel dims p"
      using map_nth [of "unravel dims p"] by simp
  qed
  finally have "np_T ?rows = build_index_grid_spec dims"
    by (simp only: unravel_grid)
  then show ?thesis
    by (simp add: th_iterproduct_def rs)
qed

lemma grid_2_3:
  "build_index_grid_spec [2, 3] = [[0, 0], [0, 1], [0, 2], [1, 0], [1, 1], [1, 2]]"
  by (simp add: build_index_grid_spec_def upt_rec)

text \<open>
  C2. For every non-empty list of axis sizes, \<open>th_iterproduct\<close> returns the full Cartesian
  product of the per-axis ranges, the first axis varying slowest and the last fastest
  (the order of \<open>product_lists\<close>); on \<open>[2, 3]\<close> it returns exactly
  \<open>(0,0), (0,1), (0,2), (1,0), (1,1), (1,2)\<close>.
\<close>

theorem C2_iterproduct_row_major:
  "(dims \<noteq> [] \<longrightarrow> th_iterproduct dims = Inr (build_index_grid_spec dims)) \<and>
   th_iterproduct [2, 3] = Inr [[0, 0], [0, 1], [0, 2], [1, 0], [1, 1], [1, 2]]"
proof
  show "dims \<noteq> [] \<longrightarrow> th_iterproduct dims = Inr (build_index_grid_spec dims)"
    by (simp add: th_iterproduct_grid)
  have "th_iterproduct [2, 3] = Inr (build_index_grid_spec [2, 3])"
    by (rule th_iterproduct_grid) simp
  then show "th_iterproduct [2, 3] = Inr [[0, 0], [0, 1], [0, 2], [1, 0], [1, 1], [1, 2]]"
    by (simp only: grid_2_3)
qed

theorem C2_iterproduct_row_major_witness:
  "[4, 2] \<noteq> ([] :: nat list) \<and>
   th_iterproduct [4, 2] = Inr [[0, 0], [0, 1], [1, 0], [1, 1], [2, 0], [2, 1], [3, 0], [3, 1]]"
proof -
  have "build_index_grid_spec [4, 2]
        = [[0, 0], [0, 1], [1, 0], [1, 1], [2, 0], [2, 1], [3, 0], [3, 1]]"
    by (simp add: build_index_grid_spec_def upt_rec)
  then show ?thesis
    using C2_iterproduct_row_major [of "[4, 2]"] by simp
qed

section \<open>Properties of the affine transform\<close>

lemma ex_coords: "th_affine_2d_coords ex_gray_2x2 ex_matrix_2d False = Inr [[0, 0], [0, 1], [1, 0], [1, 1]]"
  by code_simp

text \<open>
  C10. Two matrices that agree on their first two rows give the same result of
  \<open>th_affine_2d\<close> (same tensor, mode and center flag): a third row is never read.
\<close>

theorem C10_third_row_unread:
  "take 2 m1 = take 2 m2 \<Longrightarrow> th_affine_2d x m1 mode center = th_affine_2d x m2 mode center"
  by (simp add: th_affine_2d_def th_affine_2d_coords_def)

theorem C10_third_row_unread_witness:
  "take 2 [[0, -1, 1], [1, 0, 0], [0, 0, 1 :: real]] = take 2 [[0, -1, 1], [1, 0, 0], [5, 6, 7]] \<and>
   th_affine_2d ex_gray_2x2 [[0, -1, 1], [1, 0, 0], [0, 0, 1]] ''nearest'' True
     = th_affine_2d ex_gray_2x2 [[0, -1, 1], [1, 0, 0], [5, 6, 7]] ''nearest'' True"
  using C10_third_row_unread [of "[[0, -1, 1], [1, 0, 0], [0, 0, 1]]" "[[0, -1, 1], [1, 0, 0], [5, 6, 7]]"
      ex_gray_2x2 "''nearest''" True]
  by simp

text \<open>
  C5, as amended. With a mode outside the recognised set \<open>th_affine_2d\<close> and
  \<open>th_affine_3d\<close> never return a tensor, but the failure comes last: the grid generation
  and the coordinate mapping run first, an exception of theirs is the one reported, and
  only when they succeed does the final return raise \<open>UnboundLocalError\<close>.
\<close>

theorem C5_unrecognized_mode:
  "(mode \<noteq> ''nearest'' \<and> mode \<noteq> ''bilinear'' \<longrightarrow>
      th_affine_2d x m mode c
        = (case th_affine_2d_coords x m c of Inl e \<Rightarrow> Inl e | Inr nc \<Rightarrow> Inl UnboundLocalError)) \<and>
   (mode \<noteq> ''nearest'' \<and> mode \<noteq> ''trilinear'' \<longrightarrow>
      th_affine_3d x m mode c
        = (case th_affine_3d_coords x m c of Inl e \<Rightarrow> Inl e | Inr nc \<Rightarrow> Inl UnboundLocalError))"
  by (simp add: th_affine_2d_def th_affine_3d_def bind_err_def split: sum.splits)

theorem C5_unrecognized_mode_witness:
  "''cubic'' \<noteq> ''nearest'' \<and> ''cubic'' \<noteq> ''bilinear'' \<and>
   th_affine_2d_coords ex_gray_2x2 ex_matrix_2d False = Inr [[0, 0], [0, 1], [1, 0], [1, 1]] \<and>
   th_affine_2d ex_gray_2x2 ex_matrix_2d ''cubic'' False = Inl UnboundLocalError"
  using C5_unrecognized_mode [of "''cubic''" ex_gray_2x2 ex_matrix_2d False]
  by (simp add: ex_coords)

text \<open>
  C5 as stated fails: the exception for an unrecognised mode is not decided by the mode
  alone before anything else runs. On a tensor without axis 2 the grid generation raises
  \<open>IndexError\<close> first; on a well-formed tensor the return raises \<open>UnboundLocalError\<close>.
\<close>

theorem C5_mode_error_not_first:
  "th_affine_2d ex_no_channel_axis ex_matrix_2d ''cubic'' False = Inl IndexError \<and>
   th_affine_2d ex_gray_2x2 ex_matrix_2d ''cubic'' False = Inl UnboundLocalError"
  by code_simp

section \<open>Properties of the multilinear weights\<close>

text \<open>
  C3. At every output point the bilinear (trilinear) result is the sum of the four
  (eight) corner values, each weighted by the product over the axes of \<open>frac\<close> (ceil
  corner) or \<open>1 - frac\<close> (floor corner), and the weights sum to exactly 1.
\<close>

theorem C3_corner_weights_sum_to_one:
  "x_mapped_2d v00 v10 v01 v11 xd yd
     = v00 * ((1 - xd) * (1 - yd)) + v10 * (xd * (1 - yd))
       + v01 * ((1 - xd) * yd) + v11 * (xd * yd) \<and>
   x_mapped_2d 1 0 0 0 xd yd + x_mapped_2d 0 1 0 0 xd yd
     + x_mapped_2d 0 0 1 0 xd yd + x_mapped_2d 0 0 0 1 xd yd = 1 \<and>
   x_mapped_3d v000 v100 v010 v001 v101 v011 v110 v111 xd yd zd
     = v000 * ((1 - xd) * (1 - yd) * (1 - zd)) + v100 * (xd * (1 - yd) * (1 - zd))
       + v010 * ((1 - xd) * yd * (1 - zd)) + v001 * ((1 - xd) * (1 - yd) * zd)
       + v101 * (xd * (1 - yd) * zd) + v011 * ((1 - xd) * yd * zd)
       + v110 * (xd * yd * (1 - zd)) + v111 * (xd * yd * zd) \<and>
   x_mapped_3d 1 0 0 0 0 0 0 0 xd yd zd + x_mapped_3d 0 1 0 0 0 0 0 0 xd yd zd
     + x_mapped_3d 0 0 1 0 0 0 0 0 xd yd zd + x_mapped_3d 0 0 0 1 0 0 0 0 xd yd zd
     + x_mapped_3d 0 0 0 0 1 0 0 0 xd yd zd + x_mapped_3d 0 0 0 0 0 1 0 0 xd yd zd
     + x_mapped_3d 0 0 0 0 0 0 1 0 xd yd zd + x_mapped_3d 0 0 0 0 0 0 0 1 xd yd zd = 1"
proof (intro conjI)
  show "x_mapped_2d v00 v10 v01 v11 xd yd
     = v00 * ((1 - xd) * (1 - yd)) + v10 * (xd * (1 - yd))
       + v01 * ((1 - xd) * yd) + v11 * (xd * yd)"
    by (simp add: x_mapped_2d_def algebra_simps)
  show "x_mapped_2d 1 0 0 0 xd yd + x_mapped_2d 0 1 0 0 xd yd
     + x_mapped_2d 0 0 1 0 xd yd + x_mapped_2d 0 0 0 1 xd yd = 1"
    by (simp add: x_mapped_2d_def algebra_simps)
  show "x_mapped_3d v000 v100 v010 v001 v101 v011 v110 v111 xd yd zd
     = v000 * ((1 - xd) * (1 - yd) * (1 - zd)) + v100 * (xd * (1 - yd) * (1 - zd))
       + v010 * ((1 - xd) * yd * (1 - zd)) + v001 * ((1 - xd) * (1 - yd) * zd)
       + v101 * (xd * (1 - yd) * zd) + v011 * ((1 - xd) * yd * zd)
       + v110 * (xd * yd * (1 - zd)) + v111 * (xd * yd * zd)"
    by (simp add: x_mapped_3d_def algebra_simps)
  show "x_mapped_3d 1 0 0 0 0 0 0 0 xd yd zd + x_mapped_3d 0 1 0 0 0 0 0 0 xd yd zd
     + x_mapped_3d 0 0 1 0 0 0 0 0 xd yd zd + x_mapped_3d 0 0 0 1 0 0 0 0 xd yd zd
     + x_mapped_3d 0 0 0 0 1 0 0 0 xd yd zd + x_mapped_3d 0 0 0 0 0 1 0 0 xd yd zd
     + x_mapped_3d 0 0 0 0 0 0 1 0 xd yd zd + x_mapped_3d 0 0 0 0 0 0 0 1 xd yd zd = 1"
    by (simp add: x_mapped_3d_def algebra_simps)
qed

section \<open>Properties of the resamplers\<close>

lemma map2_self: "map2 h m (map g m) = map (\<lambda>r. h r (g r)) m"
  by (induction m) auto

lemma set_col_map: "set_col k (map g m) m = map (\<lambda>r. r[k := g r]) m"
  unfolding set_col_def by (rule map2_self)

lemma bind_err_eq_Inr: "bind_err m f = Inr y \<longleftrightarrow> (\<exists>v. m = Inr v \<and> f v = Inr y)"
  by (cases m) auto

lemma col_eq_Inr: "col k m = Inr v \<longleftrightarrow> (\<forall>r \<in> set m. k < length r) \<and> v = map (\<lambda>r. r ! k) m"
  by (auto simp: col_def)

lemma clamp_round_col_eq_Inr:
  "clamp_round_col k s = Inr c \<longleftrightarrow>
     (\<exists>n. size_at (input s) (k + 1) = Inr n \<and> (\<forall>r \<in> set (coords s). k < length r) \<and>
        c = map (\<lambda>r. r[k := th_round (th_clamp (r ! k) 0 (of_int (int n - 1)))]) (coords s))"
  unfolding clamp_round_col_def bind_err_eq_Inr col_eq_Inr
  by (auto simp: set_col_map comp_def)





lemma th_round_of_int [simp]: "th_round (of_int i) = of_int i"
  by (simp add: th_round_def)

lemma th_round_of_nat [simp]: "th_round (of_nat i) = of_nat i"
  using th_round_of_int [of "int i"] by simp




lemma nearest_2d_eq_Inr:
  assumes "fst (th_nearest_interp_2d s) = Inr y"
  shows "\<exists>h w. size_at (input s) 1 = Inr h \<and> size_at (input s) 2 = Inr w \<and>
     coords (snd (th_nearest_interp_2d s))
       = map (\<lambda>r. r[0 := th_round (th_clamp (r ! 0) 0 (of_int (int h - 1))),
                     1 := th_round (th_clamp (r ! 1) 0 (of_int (int w - 1)))]) (coords s)"
proof -
  obtain c1 where c1: "clamp_round_col 0 s = Inr c1"
    using assms by (cases "clamp_round_col 0 s") (auto simp: th_nearest_interp_2d_def)
  obtain c2 where c2: "clamp_round_col 1 (s\<lparr>coords := c1\<rparr>) = Inr c2"
    using assms c1 by (cases "clamp_round_col 1 (s\<lparr>coords := c1\<rparr>)")
      (auto simp: th_nearest_interp_2d_def Let_def)
  have final: "coords (snd (th_nearest_interp_2d s)) = c2"
    using c1 c2 by (simp add: th_nearest_interp_2d_def Let_def)
  from c1 obtain h where h: "size_at (input s) 1 = Inr h"
    "c1 = map (\<lambda>r. r[0 := th_round (th_clamp (r ! 0) 0 (of_int (int h - 1)))]) (coords s)"
    unfolding clamp_round_col_eq_Inr by auto
  from c2 obtain w where w: "size_at (input s) 2 = Inr w"
    "c2 = map (\<lambda>r. r[1 := th_round (th_clamp (r ! 1) 0 (of_int (int w - 1)))]) c1"
    unfolding clamp_round_col_eq_Inr by (auto simp: numeral_2_eq_2)
  have "c2 = map (\<lambda>r. r[0 := th_round (th_clamp (r ! 0) 0 (of_int (int h - 1))),
                     1 := th_round (th_clamp (r ! 1) 0 (of_int (int w - 1)))]) (coords s)"
    unfolding w(2) h(2) by simp
  with h(1) w(1) final show ?thesis by blast
qed

lemma nearest_3d_eq_Inr:
  assumes "fst (th_nearest_interp_3d s) = Inr y"
  shows "\<exists>d1 d2 d3. size_at (input s) 1 = Inr d1 \<and> size_at (input s) 2 = Inr d2 \<and>
     size_at (input s) 3 = Inr d3 \<and>
     coords (snd (th_nearest_interp_3d s))
       = map (\<lambda>r. r[0 := th_round (th_clamp (r ! 0) 0 (of_int (int d1 - 1))),
                     1 := th_round (th_clamp (r ! 1) 0 (of_int (int d2 - 1))),
                     2 := th_round (th_clamp (r ! 2) 0 (of_int (int d3 - 1)))]) (coords s)"
proof -
  obtain c1 where c1: "clamp_round_col 0 s = Inr c1"
    using assms by (cases "clamp_round_col 0 s") (auto simp: th_nearest_interp_3d_def)
  obtain c2 where c2: "clamp_round_col 1 (s\<lparr>coords := c1\<rparr>) = Inr c2"
    using assms c1 by (cases "clamp_round_col 1 (s\<lparr>coords := c1\<rparr>)")
      (auto simp: th_nearest_interp_3d_def Let_def)
  obtain c3 where c3: "clamp_round_col 2 (s\<lparr>coords := c2\<rparr>) = Inr c3"
    using assms c1 c2 by (cases "clamp_round_col 2 (s\<lparr>coords := c2\<rparr>)")
      (auto simp: th_nearest_interp_3d_def Let_def)
  have final: "coords (snd (th_nearest_interp_3d s)) = c3"
    using c1 c2 c3 by (simp add: th_nearest_interp_3d_def Let_def)
  from c1 obtain d1 where d1: "size_at (input s) 1 = Inr d1"
    "c1 = map (\<lambda>r. r[0 := th_round (th_clamp (r ! 0) 0 (of_int (int d1 - 1)))]) (coords s)"
    unfolding clamp_round_col_eq_Inr by auto
  from c2 obtain d2 where d2: "size_at (input s) 2 = Inr d2"
    "c2 = map (\<lambda>r. r[1 := th_round (th_clamp (r ! 1) 0 (of_int (int d2 - 1)))]) c1"
    unfolding clamp_round_col_eq_Inr by (auto simp: numeral_2_eq_2)
  from c3 obtain d3 where d3: "size_at (input s) 3 = Inr d3"
    "c3 = map (\<lambda>r. r[2 := th_round (th_clamp (r ! 2) 0 (of_int (int d3 - 1)))]) c2"
    unfolding clamp_round_col_eq_Inr by (auto simp: numeral_3_eq_3 numeral_2_eq_2)
  have "c3 = map (\<lambda>r. r[0 := th_round (th_clamp (r ! 0) 0 (of_int (int d1 - 1))),
                     1 := th_round (th_clamp (r ! 1) 0 (of_int (int d2 - 1))),
                     2 := th_round (th_clamp (r ! 2) 0 (of_int (int d3 - 1)))]) (coords s)"
    unfolding d3(2) d2(2) d1(2) by simp
  with d1(1) d2(1) d3(1) final show ?thesis by blast
qed

lemma nearest_2d_input: "input (snd (th_nearest_interp_2d s)) = input s"
  by (simp add: th_nearest_interp_2d_def Let_def split: sum.splits)

lemma nearest_3d_input: "input (snd (th_nearest_interp_3d s)) = input s"
  by (simp add: th_nearest_interp_3d_def Let_def split: sum.splits)

lemma ex_nearest_run:
  "th_nearest_interp_2d \<lparr>input = ex_gray_2x2, coords = [[- 5, 0], [0, 0], [0, 7], [1, 1]]\<rparr>
   = (Inr \<lparr>shape = [1, 2, 2], stride = [4, 2, 1], storage = [10, 10, 20, 40]\<rparr>,
      \<lparr>input = ex_gray_2x2, coords = [[0, 0], [0, 0], [0, 1], [1, 1]]\<rparr>)"
  by code_simp

lemma ex_bilinear_run:
  "th_bilinear_interp_2d \<lparr>input = ex_gray_2x2, coords = [[- 5, 0], [0, 0], [0, 7], [1, 1]]\<rparr>
   = (Inr \<lparr>shape = [1, 2, 2], stride = [4, 2, 1], storage = [10, 10, 10, 10]\<rparr>,
      \<lparr>input = ex_gray_2x2, coords = [[- 5, 0], [0, 0], [0, 7], [1, 1]]\<rparr>)"
  by code_simp

text \<open>
  C9, as amended. No resampler changes the source tensor. The nearest resamplers (two and
  three axes) overwrite the coordinate grid in place with the clamped and rounded
  coordinates; the multilinear resamplers clamp into fresh arrays and leave the coordinate
  grid as it was.
\<close>

theorem C9_frame:
  "input (snd (th_nearest_interp_2d s)) = input s \<and>
   input (snd (th_nearest_interp_3d s)) = input s \<and>
   snd (th_bilinear_interp_2d s) = s \<and>
   snd (th_trilinear_interp_3d s) = s \<and>
   (fst (th_nearest_interp_2d s) = Inr y \<longrightarrow>
      (\<exists>h w. size_at (input s) 1 = Inr h \<and> size_at (input s) 2 = Inr w \<and>
         coords (snd (th_nearest_interp_2d s))
           = map (\<lambda>r. r[0 := th_round (th_clamp (r ! 0) 0 (of_int (int h - 1))),
                         1 := th_round (th_clamp (r ! 1) 0 (of_int (int w - 1)))]) (coords s))) \<and>
   (fst (th_nearest_interp_3d s) = Inr y \<longrightarrow>
      (\<exists>d1 d2 d3. size_at (input s) 1 = Inr d1 \<and> size_at (input s) 2 = Inr d2 \<and>
         size_at (input s) 3 = Inr d3 \<and>
         coords (snd (th_nearest_interp_3d s))
           = map (\<lambda>r. r[0 := th_round (th_clamp (r ! 0) 0 (of_int (int d1 - 1))),
                         1 := th_round (th_clamp (r ! 1) 0 (of_int (int d2 - 1))),
                         2 := th_round (th_clamp (r ! 2) 0 (of_int (int d3 - 1)))]) (coords s)))"
  using nearest_2d_eq_Inr [of s y] nearest_3d_eq_Inr [of s y]
  by (simp add: nearest_2d_input nearest_3d_input th_bilinear_interp_2d_def
      th_trilinear_interp_3d_def)

theorem C9_frame_witness:
  "fst (th_nearest_interp_2d \<lparr>input = ex_gray_2x2, coords = [[- 5, 0], [0, 0], [0, 7], [1, 1]]\<rparr>)
     = Inr \<lparr>shape = [1, 2, 2], stride = [4, 2, 1], storage = [10, 10, 20, 40]\<rparr> \<and>
   input (snd (th_nearest_interp_2d \<lparr>input = ex_gray_2x2, coords = [[- 5, 0], [0, 0], [0, 7], [1, 1]]\<rparr>))
     = ex_gray_2x2 \<and>
   (\<exists>h w. size_at ex_gray_2x2 1 = Inr h \<and> size_at ex_gray_2x2 2 = Inr w \<and>
      coords (snd (th_nearest_interp_2d \<lparr>input = ex_gray_2x2, coords = [[- 5, 0], [0, 0], [0, 7], [1, 1]]\<rparr>))
        = map (\<lambda>r. r[0 := th_round (th_clamp (r ! 0) 0 (of_int (int h - 1))),
                      1 := th_round (th_clamp (r ! 1) 0 (of_int (int w - 1)))])
            [[- 5, 0], [0, 0], [0, 7], [1, 1]])"
  using C9_frame [of "\<lparr>input = ex_gray_2x2, coords = [[- 5, 0], [0, 0], [0, 7], [1, 1]]\<rparr>"
      "\<lparr>shape = [1, 2, 2], stride = [4, 2, 1], storage = [10, 10, 20, 40]\<rparr>"]
  by (simp add: ex_nearest_run)

text \<open>
  C9 as stated fails: the bilinear resampler does not clamp the coordinate grid in place.
  After a successful call the grid still holds \<open>-5\<close> and \<open>7\<close>, outside \<open>[0, size - 2]\<close>;
  the nearest resampler on the same arguments leaves the clamped, rounded grid.
\<close>

theorem C9_bilinear_grid_not_clamped:
  "fst (th_bilinear_interp_2d \<lparr>input = ex_gray_2x2, coords = [[- 5, 0], [0, 0], [0, 7], [1, 1]]\<rparr>)
     = Inr \<lparr>shape = [1, 2, 2], stride = [4, 2, 1], storage = [10, 10, 10, 10]\<rparr> \<and>
   coords (snd (th_bilinear_interp_2d \<lparr>input = ex_gray_2x2, coords = [[- 5, 0], [0, 0], [0, 7], [1, 1]]\<rparr>))
     = [[- 5, 0], [0, 0], [0, 7], [1, 1]] \<and>
   coords (snd (th_nearest_interp_2d \<lparr>input = ex_gray_2x2, coords = [[- 5, 0], [0, 0], [0, 7], [1, 1]]\<rparr>))
     = [[0, 0], [0, 0], [0, 1], [1, 1]]"
  by (simp add: ex_bilinear_run ex_nearest_run)

lemma upd_col_length: "upd_col k f m = Inr m' \<Longrightarrow> length m' = length m"
  by (auto simp: upd_col_def bind_err_eq_Inr col_eq_Inr set_col_map)

lemma mm_length: "mm a b = Inr r \<Longrightarrow> length r = length a"
  by (auto simp: mm_def split: if_splits)

lemma map_err_length: "map_err f js = Inr r \<Longrightarrow> length r = length js"
  by (induction js arbitrary: r) (auto simp: bind_err_eq_Inr)

lemma madd_length: "madd a b = Inr r \<Longrightarrow> length r = length a"
  by (auto simp: madd_def dest!: map_err_length split: if_splits)

lemma grid_length: "length (build_index_grid_spec dims) = prod_list dims"
  unfolding unravel_grid [symmetric] by simp

lemma shift_length:
  "(if center then bind_err (upd_col i f m) (upd_col j g) else Inr m) = Inr r \<Longrightarrow>
   length r = length m"
  by (auto simp: bind_err_eq_Inr dest!: upd_col_length split: if_splits)

lemma th_affine_2d_coords_length:
  assumes "th_affine_2d_coords x m center = Inr nc" and "shape x = [c, h, w]"
  shows "length nc = h * w"
proof -
  have sz: "size_at x 1 = Inr h" "size_at x 2 = Inr w"
    using assms(2) by (simp_all add: size_at_def)
  have g: "th_iterproduct [h, w] = Inr (build_index_grid_spec [h, w])"
    by (rule th_iterproduct_grid) simp
  let ?g = "map (map real) (build_index_grid_spec [h, w])"
  have lg: "length ?g = h * w" by (simp add: grid_length)
  from assms(1) obtain cs ac be new where
    cs: "(if center
          then bind_err (upd_col 0 (\<lambda>a. a - (real h / 2 + 0.5)) ?g)
                 (upd_col 1 (\<lambda>a. a - (real w / 2 + 0.5)))
          else Inr ?g) = Inr cs"
    and ac: "mm cs (th_t (map (take 2) (take 2 m))) = Inr ac"
    and new: "madd ac be = Inr new"
    and fin: "(if center
               then bind_err (upd_col 0 (\<lambda>a. a + (real h / 2 + 0.5)) new)
                      (upd_col 1 (\<lambda>a. a + (real w / 2 + 0.5)))
               else Inr new) = Inr nc"
    unfolding th_affine_2d_coords_def Let_def sz g bind_err_Inr bind_err_eq_Inr by blast
  have "length cs = h * w"
    using shift_length [OF cs] lg by simp
  then have "length new = h * w"
    using mm_length [OF ac] madd_length [OF new] by simp
  then show ?thesis
    using shift_length [OF fin] by simp
qed

lemma view_as_length: "view_as buf x = Inr y \<Longrightarrow> length buf = prod_list (shape x)"
  by (auto simp: view_as_def split: if_splits)

lemma bilinear_2d_length:
  assumes "bilinear_2d inp cs = Inr y"
  shows "length cs = prod_list (shape inp)"
  using assms unfolding bilinear_2d_def Let_def bind_err_eq_Inr
  by (auto dest!: view_as_length)

lemma bilinear_multichannel_raises:
  assumes "shape x = [c, h, w]" "c \<noteq> 1" "0 < h * w"
  shows "th_affine_2d x m ''bilinear'' center \<noteq> Inr y"
proof
  assume "th_affine_2d x m ''bilinear'' center = Inr y"
  then obtain nc where nc: "th_affine_2d_coords x m center = Inr nc"
    and b: "bilinear_2d x nc = Inr y"
    by (auto simp: th_affine_2d_def bind_err_eq_Inr th_bilinear_interp_2d_def)
  have "length nc = h * w" by (rule th_affine_2d_coords_length [OF nc assms(1)])
  moreover have "length nc = c * (h * w)"
    using bilinear_2d_length [OF b] assms(1) by simp
  ultimately show False using assms(2,3) by simp
qed

text \<open>
  C1 fails on the code in bilinear mode. \<open>th_bilinear_interp_2d\<close> gathers one value per
  grid point from the flattened tensor and reshapes these \<open>H * W\<close> values to the shape
  \<open>(C, H, W)\<close> of the input, which raises whenever the tensor has more than one channel
  (and a non-empty grid), whatever the matrix. On the two-channel tensor with channel 0
  all zeros and channel 1 all ones it raises, while the nearest resampler, which gathers
  per channel, returns that tensor.
\<close>

theorem C1_bilinear_two_channels_raises:
  "(shape x = [c, h, w] \<and> c \<noteq> 1 \<and> 0 < h * w \<longrightarrow>
      (\<forall>y. th_affine_2d x m ''bilinear'' center \<noteq> Inr y)) \<and>
   th_affine_2d ex_two_channel ex_matrix_2d ''bilinear'' False = Inl RuntimeError \<and>
   th_affine_2d ex_two_channel ex_matrix_2d ''bilinear'' True = Inl RuntimeError \<and>
   th_affine_2d ex_two_channel ex_matrix_2d ''nearest'' False = Inr ex_two_channel"
proof (intro conjI impI allI)
  fix y
  assume "shape x = [c, h, w] \<and> c \<noteq> 1 \<and> 0 < h * w"
  then have "shape x = [c, h, w]" and "c \<noteq> 1" and "0 < h * w"
    by simp_all
  then show "th_affine_2d x m ''bilinear'' center \<noteq> Inr y"
    by (rule bilinear_multichannel_raises)
next
  show "th_affine_2d ex_two_channel ex_matrix_2d ''bilinear'' False = Inl RuntimeError"
    by code_simp
  show "th_affine_2d ex_two_channel ex_matrix_2d ''bilinear'' True = Inl RuntimeError"
    by code_simp
  show "th_affine_2d ex_two_channel ex_matrix_2d ''nearest'' False = Inr ex_two_channel"
    by code_simp
qed

theorem C1_bilinear_two_channels_raises_witness:
  "shape ex_two_channel = [2, 2, 2] \<and> (2 :: nat) \<noteq> 1 \<and> (0 :: nat) < 2 * 2 \<and>
   th_affine_2d ex_two_channel ex_rot90 ''bilinear'' True \<noteq> Inr ex_two_channel"
proof -
  have "shape ex_two_channel = [2, 2, 2]"
    by (simp add: ex_two_channel_def)
  then show ?thesis
    using C1_bilinear_two_channels_raises [of ex_two_channel 2 2 2 ex_rot90 True]
    by simp
qed

section \<open>The identity transform\<close>

lemma grid_rows_length: "r \<in> set (build_index_grid_spec dims) \<Longrightarrow> length r = length dims"
  unfolding unravel_grid [symmetric] by auto



lemma pairs_bounds: "q \<in> set (List.product [0..<h] [0..<w]) \<Longrightarrow> fst q < h \<and> snd q < w"
  by auto












lemma length_chunks [simp]: "length (chunks r n buf) = r"
  by (induction r arbitrary: buf) auto

















section \<open>Rotation about the centre\<close>







section \<open>A spatial axis of size 1\<close>














end
